theory Spec2Isabelle
  imports Main "HOL-Library.Multiset"
begin

section \<open>Values of the host language\<close>

text \<open>
  The backend is JavaScript on Node. A string is the list of its code units, one \<open>char\<close>
  each, so the strings of the model are those with code units below 256 and \<open>length\<close> is
  \<open>.length\<close>. A value that is either a string or \<open>undefined\<close> (a header that was not
  sent, a body field that is absent) is a \<open>string option\<close>. A JavaScript number that
  \<open>parseInt\<close> produces is \<open>NaN\<close>, an infinity, or a double whose value is an integer.
\<close>

datatype jsnum = NaN | Num int | PosInfinity | NegInfinity

definition falsy :: "string option \<Rightarrow> bool" where
  "falsy v = (case v of None \<Rightarrow> True | Some s \<Rightarrow> s = [])"

text \<open>\<open>String.prototype.split\<close> with a one-character separator.\<close>

fun split :: "string \<Rightarrow> char \<Rightarrow> string list" where
  "split [] sep = [[]]"
| "split (c # cs) sep =
     (if c = sep then [] # split cs sep
      else (case split cs sep of [] \<Rightarrow> [[c]] | w # ws \<Rightarrow> (c # w) # ws))"

text \<open>Indexing an array: \<open>undefined\<close> out of range.\<close>

definition at_index :: "'a list \<Rightarrow> nat \<Rightarrow> 'a option" where
  "at_index xs i = (if i < length xs then Some (xs ! i) else None)"

text \<open>
  \<open>parseInt(string)\<close> with no radix: leading white space is skipped, one sign is
  read, a \<open>0x\<close> or \<open>0X\<close> prefix selects radix 16, and the longest prefix of digits of the
  radix is converted. With no digit the result is \<open>NaN\<close>. The white space and line
  terminators below code unit 256 are TAB, LF, VT, FF, CR, SP and NBSP.
\<close>

definition is_white_space :: "char \<Rightarrow> bool" where
  "is_white_space c = (of_char c \<in> {9, 10, 11, 12, 13, 32, 160 :: nat})"

definition digit_value :: "char \<Rightarrow> nat option" where
  "digit_value c =
     (let k = (of_char c :: nat) in
      if 48 \<le> k \<and> k \<le> 57 then Some (k - 48)
      else if 97 \<le> k \<and> k \<le> 122 then Some (k - 87)
      else if 65 \<le> k \<and> k \<le> 90 then Some (k - 55)
      else None)"

definition is_radix_digit :: "nat \<Rightarrow> char \<Rightarrow> bool" where
  "is_radix_digit R c = (case digit_value c of None \<Rightarrow> False | Some d \<Rightarrow> d < R)"

definition digits_to_int :: "nat \<Rightarrow> string \<Rightarrow> int" where
  "digits_to_int R Z = foldl (\<lambda>acc c. acc * int R + int (the (digit_value c))) 0 Z"

text \<open>
  The number of the digits is a double: the integer nearest to their value among those
  with 53 significant bits, the even one of two equally near, and an infinity from
  \<open>2^1024\<close> on. \<open>shift_count m\<close> is the number of low bits that \<open>m\<close> has beyond 53.
\<close>

function shift_count :: "int \<Rightarrow> nat" where
  "shift_count m = (if m < 2 ^ 53 then 0 else Suc (shift_count (m div 2)))"
  by pat_completeness auto
termination
  by (relation "measure nat") auto

declare shift_count.simps [simp del]

definition round_to_double :: "int \<Rightarrow> int option" where
  "round_to_double m =
     (let e = shift_count m;
          q = m div 2 ^ e;
          r = m mod 2 ^ e;
          q' = (if 2 ^ e < 2 * r \<or> (2 * r = 2 ^ e \<and> odd q) then q + 1 else q);
          v = q' * 2 ^ e
      in if v < 2 ^ 1024 then Some v else None)"

definition parseInt :: "string \<Rightarrow> jsnum" where
  "parseInt inputString =
     (let S = dropWhile is_white_space inputString;
          sign = (if S \<noteq> [] \<and> hd S = CHR ''-'' then - 1 else 1 :: int);
          S1 = (if S \<noteq> [] \<and> (hd S = CHR ''+'' \<or> hd S = CHR ''-'') then tl S else S);
          hex = (take 2 S1 = ''0x'' \<or> take 2 S1 = ''0X'');
          R = (if hex then 16 else 10 :: nat);
          S2 = (if hex then drop 2 S1 else S1);
          Z = takeWhile (is_radix_digit R) S2
      in if Z = [] then NaN
         else (case round_to_double (digits_to_int R Z) of
                 None \<Rightarrow> if sign < 0 then NegInfinity else PosInfinity
               | Some v \<Rightarrow> Num (sign * v)))"

section \<open>The database (database.js)\<close>

text \<open>
  The SQLite file holds two tables. A table is the list of its rows in rowid order,
  together with the counter that \<open>AUTOINCREMENT\<close> keeps for it. Row ids are natural
  numbers. \<open>CURRENT_TIMESTAMP\<close> is the clock in whole seconds
  (\<open>YYYY-MM-DD HH:MM:SS\<close>); the clock itself is read in milliseconds, as \<open>Date.now()\<close>
  does, and is an input of every operation that reads it.

  Requests are handled one at a time, each reading the clock once. A statement fails
  only on a constraint of the schema, and the one constraint the code can violate is
  the uniqueness of \<open>username\<close>, in \<open>createUser\<close>; failures of the storage engine
  itself are outside the model.
\<close>

record user_row =
  u_id :: nat
  u_username :: string
  u_password_hash :: string
  u_created_at :: nat

record note_row =
  n_id :: nat
  n_user_id :: nat
  n_title :: string
  n_content :: string
  n_tags :: string
  n_created_at :: nat
  n_updated_at :: nat

record database =
  users_table :: "user_row list"
  users_seq :: nat
  notes_table :: "note_row list"
  notes_seq :: nat

definition initDatabase :: database where
  "initDatabase = \<lparr>users_table = [], users_seq = 0, notes_table = [], notes_seq = 0\<rparr>"

definition CURRENT_TIMESTAMP :: "nat \<Rightarrow> nat" where
  "CURRENT_TIMESTAMP now = now div 1000"

text \<open>
  The rowid an \<open>AUTOINCREMENT\<close> table gives to a new row: one more than the largest
  rowid the table has ever held.
\<close>

definition next_rowid :: "nat list \<Rightarrow> nat \<Rightarrow> nat" where
  "next_rowid ids seq = Suc (fold max ids seq)"

text \<open>
  A bound parameter compared with an \<open>INTEGER\<close> column. The driver binds a number
  as an integer or as a double, and SQLite compares either with the column by value; no
  row id is infinite. A \<open>NaN\<close> double is stored as \<open>NULL\<close>, and \<open>id = NULL\<close> is true of
  no row.
\<close>

definition sql_eq :: "nat \<Rightarrow> jsnum \<Rightarrow> bool" where
  "sql_eq col v =
     (case v of NaN \<Rightarrow> False | Num k \<Rightarrow> int col = k | PosInfinity \<Rightarrow> False
      | NegInfinity \<Rightarrow> False)"

subsection \<open>Notes\<close>

text \<open>
  \<open>ORDER BY updated_at DESC\<close>. SQL leaves the order of rows with equal keys open; here
  they keep their table order.
\<close>

definition order_by_updated_at_desc :: "note_row list \<Rightarrow> note_row list" where
  "order_by_updated_at_desc rows = sort_key (\<lambda>n. - int (n_updated_at n)) rows"

definition getNotesByUserId :: "database \<Rightarrow> nat \<Rightarrow> note_row list" where
  "getNotesByUserId db userId =
     order_by_updated_at_desc (filter (\<lambda>n. n_user_id n = userId) (notes_table db))"

definition note_matches :: "jsnum \<Rightarrow> nat \<Rightarrow> note_row \<Rightarrow> bool" where
  "note_matches noteId userId n = (sql_eq (n_id n) noteId \<and> n_user_id n = userId)"

definition getNoteById :: "database \<Rightarrow> jsnum \<Rightarrow> nat \<Rightarrow> note_row option" where
  "getNoteById db noteId userId = find (note_matches noteId userId) (notes_table db)"

definition createNote ::
  "nat \<Rightarrow> database \<Rightarrow> nat \<Rightarrow> string \<Rightarrow> string \<Rightarrow> string \<Rightarrow> note_row option \<times> database" where
  "createNote now db userId title content tags =
     (let lastID = next_rowid (map n_id (notes_table db)) (notes_seq db);
          row = \<lparr>n_id = lastID, n_user_id = userId, n_title = title, n_content = content,
                 n_tags = tags, n_created_at = CURRENT_TIMESTAMP now,
                 n_updated_at = CURRENT_TIMESTAMP now\<rparr>;
          db' = db\<lparr>notes_table := notes_table db @ [row], notes_seq := lastID\<rparr>
      in (getNoteById db' (Num (int lastID)) userId, db'))"

definition updateNote ::
  "nat \<Rightarrow> database \<Rightarrow> jsnum \<Rightarrow> nat \<Rightarrow> string \<Rightarrow> string \<Rightarrow> string \<Rightarrow> note_row option \<times> database" where
  "updateNote now db noteId userId title content tags =
     (case getNoteById db noteId userId of
        None \<Rightarrow> (None, db)
      | Some existingNote \<Rightarrow>
          (let db' = db\<lparr>notes_table :=
                 map (\<lambda>n. if note_matches noteId userId n
                           then n\<lparr>n_title := title, n_content := content, n_tags := tags,
                                  n_updated_at := CURRENT_TIMESTAMP now\<rparr>
                           else n) (notes_table db)\<rparr>
           in (getNoteById db' noteId userId, db')))"

definition deleteNote :: "database \<Rightarrow> jsnum \<Rightarrow> nat \<Rightarrow> bool \<times> database" where
  "deleteNote db noteId userId =
     (case getNoteById db noteId userId of
        None \<Rightarrow> (False, db)
      | Some existingNote \<Rightarrow>
          (let kept = filter (\<lambda>n. \<not> note_matches noteId userId n) (notes_table db);
               changes = length (notes_table db) - length kept
           in (changes > 0, db\<lparr>notes_table := kept\<rparr>)))"

subsection \<open>Users\<close>

text \<open>
  The two libraries the data layer and the server call are inputs of the model:
  \<open>bcryptjs\<close> (\<open>hashSync\<close> with cost 10, which draws a random salt, here the second
  argument, and \<open>compareSync\<close>) and \<open>jsonwebtoken\<close> (\<open>sign\<close> with \<open>expiresIn: '24h'\<close>
  and \<open>verify\<close>, both reading the clock, here their last argument).
\<close>

record jwt_claims =
  c_id :: nat
  c_username :: string

record jwt_decoded =
  d_id :: nat
  d_username :: string
  d_iat :: nat
  d_exp :: nat

record libs =
  hashSync :: "string \<Rightarrow> string \<Rightarrow> string"
  compareSync :: "string \<Rightarrow> string \<Rightarrow> bool"
  jwt_sign :: "jwt_claims \<Rightarrow> string \<Rightarrow> nat \<Rightarrow> string"
  jwt_verify :: "string \<Rightarrow> string \<Rightarrow> nat \<Rightarrow> jwt_decoded option"

text \<open>
  The user object handed to the route layer has no password hash. Its \<open>created_at\<close> is
  \<open>new Date().toISOString()\<close> when it comes from \<open>createUser\<close> and the stored column
  when it comes from \<open>verifyUser\<close>.
\<close>

datatype created_at_value = IsoString nat | SqlDatetime nat

record user_public =
  pub_id :: nat
  pub_username :: string
  pub_created_at :: created_at_value

datatype db_error = SQLITE_CONSTRAINT

definition createUser ::
  "libs \<Rightarrow> string \<Rightarrow> nat \<Rightarrow> database \<Rightarrow> string \<Rightarrow> string
     \<Rightarrow> (db_error + user_public) \<times> database" where
  "createUser L salt now db username password =
     (let passwordHash = hashSync L password salt in
      if list_ex (\<lambda>r. u_username r = username) (users_table db)
      then (Inl SQLITE_CONSTRAINT, db)
      else
        (let lastID = next_rowid (map u_id (users_table db)) (users_seq db);
             row = \<lparr>u_id = lastID, u_username = username, u_password_hash = passwordHash,
                    u_created_at = CURRENT_TIMESTAMP now\<rparr>
         in (Inr \<lparr>pub_id = lastID, pub_username = username, pub_created_at = IsoString now\<rparr>,
             db\<lparr>users_table := users_table db @ [row], users_seq := lastID\<rparr>)))"

definition getUserByUsername :: "database \<Rightarrow> string \<Rightarrow> user_row option" where
  "getUserByUsername db username = find (\<lambda>r. u_username r = username) (users_table db)"

definition getUserById :: "database \<Rightarrow> nat \<Rightarrow> user_public option" where
  "getUserById db userId =
     map_option (\<lambda>r. \<lparr>pub_id = u_id r, pub_username = u_username r,
                        pub_created_at = SqlDatetime (u_created_at r)\<rparr>)
       (find (\<lambda>r. u_id r = userId) (users_table db))"

definition verifyUser :: "libs \<Rightarrow> database \<Rightarrow> string \<Rightarrow> string \<Rightarrow> user_public option" where
  "verifyUser L db username password =
     (case getUserByUsername db username of
        None \<Rightarrow> None
      | Some user \<Rightarrow>
          if compareSync L password (u_password_hash user)
          then Some \<lparr>pub_id = u_id user, pub_username = u_username user,
                     pub_created_at = SqlDatetime (u_created_at user)\<rparr>
          else None)"

definition changePassword ::
  "libs \<Rightarrow> string \<Rightarrow> database \<Rightarrow> nat \<Rightarrow> string \<Rightarrow> string \<Rightarrow> bool \<times> database" where
  "changePassword L salt db userId oldPassword newPassword =
     (case find (\<lambda>r. u_id r = userId) (users_table db) of
        None \<Rightarrow> (False, db)
      | Some user \<Rightarrow>
          if \<not> compareSync L oldPassword (u_password_hash user) then (False, db)
          else
            (let newPasswordHash = hashSync L newPassword salt;
                 changes = length (filter (\<lambda>r. u_id r = userId) (users_table db))
             in (changes > 0,
                 db\<lparr>users_table :=
                      map (\<lambda>r. if u_id r = userId
                                then r\<lparr>u_password_hash := newPasswordHash\<rparr> else r)
                        (users_table db)\<rparr>)))"

definition deleteUserAccount :: "libs \<Rightarrow> database \<Rightarrow> nat \<Rightarrow> string \<Rightarrow> bool \<times> database" where
  "deleteUserAccount L db userId password =
     (case find (\<lambda>r. u_id r = userId) (users_table db) of
        None \<Rightarrow> (False, db)
      | Some user \<Rightarrow>
          if \<not> compareSync L password (u_password_hash user) then (False, db)
          else
            (let db1 = db\<lparr>notes_table := filter (\<lambda>n. n_user_id n \<noteq> userId) (notes_table db)\<rparr>;
                 kept = filter (\<lambda>r. u_id r \<noteq> userId) (users_table db1);
                 changes = length (users_table db1) - length kept
             in (changes > 0, db1\<lparr>users_table := kept\<rparr>)))"

section \<open>The server (server.js)\<close>

record req_body =
  b_username :: "string option"
  b_password :: "string option"
  b_title :: "string option"
  b_content :: "string option"
  b_tags :: "string option"
  b_oldPassword :: "string option"
  b_newPassword :: "string option"

datatype json_body =
    ErrorBody string
  | AuthBody string string user_public
  | NotesBody "note_row list" nat
  | NoteBody string "note_row option"
  | MessageBody string

record response =
  status :: nat
  json :: json_body

definition JWT_SECRET :: string where
  "JWT_SECRET = ''your-secret-key-change-this-in-production''"

subsection \<open>Authentication middleware\<close>

text \<open>The token part of the header: \<open>authHeader && authHeader.split(' ')[1]\<close>.\<close>

definition header_token :: "string option \<Rightarrow> string option" where
  "header_token authHeader =
     (if falsy authHeader then authHeader
      else at_index (split (the authHeader) CHR '' '') 1)"

datatype gate = Rejected response | Passed jwt_decoded

definition authenticateToken :: "libs \<Rightarrow> nat \<Rightarrow> string option \<Rightarrow> gate" where
  "authenticateToken L now authHeader =
     (let token = header_token authHeader in
      if falsy token
      then Rejected \<lparr>status = 401, json = ErrorBody ''Access token required''\<rparr>
      else (case jwt_verify L (the token) JWT_SECRET now of
              None \<Rightarrow> Rejected \<lparr>status = 403, json = ErrorBody ''Invalid or expired token''\<rparr>
            | Some user \<Rightarrow> Passed user))"

subsection \<open>Route handlers\<close>

text \<open>
  A handler maps the database and the request to the response and the database after
  it. Body fields are JSON strings or absent. \<open>res.json\<close> with no status answers 200.
  The \<open>catch\<close> of a handler answers 500.
\<close>

definition internal_error :: response where
  "internal_error = \<lparr>status = 500, json = ErrorBody ''Internal server error''\<rparr>"

definition post_register ::
  "libs \<Rightarrow> nat \<Rightarrow> string \<Rightarrow> database \<Rightarrow> req_body \<Rightarrow> response \<times> database" where
  "post_register L now salt db body =
     (let username = b_username body; password = b_password body in
      if falsy username \<or> falsy password
      then (\<lparr>status = 400, json = ErrorBody ''Username and password are required''\<rparr>, db)
      else if length (the username) < 3
      then (\<lparr>status = 400, json = ErrorBody ''Username must be at least 3 characters''\<rparr>, db)
      else if length (the password) < 6
      then (\<lparr>status = 400, json = ErrorBody ''Password must be at least 6 characters''\<rparr>, db)
      else
        (case getUserByUsername db (the username) of
           Some existingUser \<Rightarrow>
             (\<lparr>status = 409, json = ErrorBody ''Username already exists''\<rparr>, db)
         | None \<Rightarrow>
             (case createUser L salt now db (the username) (the password) of
                (Inl err, db') \<Rightarrow> (internal_error, db')
              | (Inr user, db') \<Rightarrow>
                  (let token = jwt_sign L \<lparr>c_id = pub_id user, c_username = pub_username user\<rparr>
                                 JWT_SECRET now
                   in (\<lparr>status = 201,
                        json = AuthBody ''User registered successfully'' token user\<rparr>, db')))))"

definition post_login ::
  "libs \<Rightarrow> nat \<Rightarrow> database \<Rightarrow> req_body \<Rightarrow> response \<times> database" where
  "post_login L now db body =
     (let username = b_username body; password = b_password body in
      if falsy username \<or> falsy password
      then (\<lparr>status = 400, json = ErrorBody ''Username and password are required''\<rparr>, db)
      else
        (case verifyUser L db (the username) (the password) of
           None \<Rightarrow> (\<lparr>status = 401, json = ErrorBody ''Invalid username or password''\<rparr>, db)
         | Some user \<Rightarrow>
             (let token = jwt_sign L \<lparr>c_id = pub_id user, c_username = pub_username user\<rparr>
                            JWT_SECRET now
              in (\<lparr>status = 200, json = AuthBody ''Login successful'' token user\<rparr>, db))))"

definition get_notes :: "database \<Rightarrow> jwt_decoded \<Rightarrow> response \<times> database" where
  "get_notes db user =
     (let notes = getNotesByUserId db (d_id user)
      in (\<lparr>status = 200, json = NotesBody notes (length notes)\<rparr>, db))"

text \<open>\<open>tags || ''\<close>\<close>

definition or_empty :: "string option \<Rightarrow> string" where
  "or_empty v = (if falsy v then [] else the v)"

definition post_notes ::
  "nat \<Rightarrow> database \<Rightarrow> jwt_decoded \<Rightarrow> req_body \<Rightarrow> response \<times> database" where
  "post_notes now db user body =
     (let title = b_title body; content = b_content body; tags = b_tags body in
      if falsy title \<or> falsy content
      then (\<lparr>status = 400, json = ErrorBody ''Title and content are required''\<rparr>, db)
      else
        (case createNote now db (d_id user) (the title) (the content) (or_empty tags) of
           (note, db') \<Rightarrow>
             (\<lparr>status = 201, json = NoteBody ''Note created successfully'' note\<rparr>, db')))"

definition put_note ::
  "nat \<Rightarrow> database \<Rightarrow> jwt_decoded \<Rightarrow> string \<Rightarrow> req_body \<Rightarrow> response \<times> database" where
  "put_note now db user id_param body =
     (let noteId = parseInt id_param;
          title = b_title body; content = b_content body; tags = b_tags body in
      if falsy title \<or> falsy content
      then (\<lparr>status = 400, json = ErrorBody ''Title and content are required''\<rparr>, db)
      else
        (case updateNote now db noteId (d_id user) (the title) (the content) (or_empty tags) of
           (None, db') \<Rightarrow>
             (\<lparr>status = 404, json = ErrorBody ''Note not found or unauthorized''\<rparr>, db')
         | (Some updatedNote, db') \<Rightarrow>
             (\<lparr>status = 200, json = NoteBody ''Note updated successfully'' (Some updatedNote)\<rparr>,
              db')))"

definition delete_note :: "database \<Rightarrow> jwt_decoded \<Rightarrow> string \<Rightarrow> response \<times> database" where
  "delete_note db user id_param =
     (let noteId = parseInt id_param in
      case deleteNote db noteId (d_id user) of
        (success, db') \<Rightarrow>
          if \<not> success
          then (\<lparr>status = 404, json = ErrorBody ''Note not found or unauthorized''\<rparr>, db')
          else (\<lparr>status = 200, json = MessageBody ''Note deleted successfully''\<rparr>, db'))"

definition put_password ::
  "libs \<Rightarrow> string \<Rightarrow> database \<Rightarrow> jwt_decoded \<Rightarrow> req_body \<Rightarrow> response \<times> database" where
  "put_password L salt db user body =
     (let oldPassword = b_oldPassword body; newPassword = b_newPassword body in
      if falsy oldPassword \<or> falsy newPassword
      then (\<lparr>status = 400, json = ErrorBody ''Old password and new password are required''\<rparr>, db)
      else if length (the newPassword) < 6
      then (\<lparr>status = 400, json = ErrorBody ''New password must be at least 6 characters''\<rparr>, db)
      else if oldPassword = newPassword
      then (\<lparr>status = 400,
             json = ErrorBody ''New password must be different from old password''\<rparr>, db)
      else
        (case changePassword L salt db (d_id user) (the oldPassword) (the newPassword) of
           (success, db') \<Rightarrow>
             if \<not> success
             then (\<lparr>status = 401, json = ErrorBody ''Current password is incorrect''\<rparr>, db')
             else (\<lparr>status = 200, json = MessageBody ''Password changed successfully''\<rparr>, db')))"

definition delete_account ::
  "libs \<Rightarrow> database \<Rightarrow> jwt_decoded \<Rightarrow> req_body \<Rightarrow> response \<times> database" where
  "delete_account L db user body =
     (let password = b_password body in
      if falsy password
      then (\<lparr>status = 400, json = ErrorBody ''Password is required to delete account''\<rparr>, db)
      else
        (case deleteUserAccount L db (d_id user) (the password) of
           (success, db') \<Rightarrow>
             if \<not> success
             then (\<lparr>status = 401, json = ErrorBody ''Password is incorrect''\<rparr>, db')
             else (\<lparr>status = 200, json = MessageBody ''Account deleted successfully''\<rparr>, db')))"

subsection \<open>Routing\<close>

text \<open>
  The routes of the API, after Express has matched method and path; the two routes with
  \<open>:id\<close> carry the path parameter. Express matches \<open>:id\<close> to a path segment that is not
  empty (the path \<open>/api/notes/\<close> is not of these routes), so \<open>req.params.id\<close> is a string
  that is not empty. The test route \<open>/\<close> and the fallback that answers 404
  \<open>Endpoint not found\<close> to any other path are left out.
\<close>

typedef path_param = "{s :: string. s \<noteq> []}"
  morphisms param_string Abs_path_param
  by (rule exI [of _ "''0''"]) simp

setup_lifting type_definition_path_param

lift_definition path_param_of :: "char \<Rightarrow> string \<Rightarrow> path_param" is "\<lambda>c cs. c # cs"
  by simp

datatype route =
    POST_register
  | POST_login
  | GET_notes
  | POST_notes
  | PUT_notes_id path_param
  | DELETE_notes_id path_param
  | PUT_user_password
  | DELETE_user_account

record request =
  route :: route
  authorization :: "string option"
  body :: req_body

text \<open>The routes registered with \<open>authenticateToken\<close> before their handler.\<close>

fun is_protected :: "route \<Rightarrow> bool" where
  "is_protected POST_register = False"
| "is_protected POST_login = False"
| "is_protected _ = True"

text \<open>
  A route registered as \<open>app.METHOD(path, authenticateToken, handler)\<close>: the handler
  runs only when the middleware calls \<open>next()\<close>, with \<open>req.user\<close> set.
\<close>

definition with_auth ::
  "libs \<Rightarrow> nat \<Rightarrow> string option \<Rightarrow> database \<Rightarrow> (jwt_decoded \<Rightarrow> response \<times> database)
     \<Rightarrow> response \<times> database" where
  "with_auth L now authHeader db handler =
     (case authenticateToken L now authHeader of
        Rejected res \<Rightarrow> (res, db)
      | Passed user \<Rightarrow> handler user)"

definition handle ::
  "libs \<Rightarrow> nat \<Rightarrow> string \<Rightarrow> database \<Rightarrow> request \<Rightarrow> response \<times> database" where
  "handle L now salt db req =
     (let auth = with_auth L now (authorization req) db; b = body req in
      case route req of
        POST_register \<Rightarrow> post_register L now salt db b
      | POST_login \<Rightarrow> post_login L now db b
      | GET_notes \<Rightarrow> auth (\<lambda>user. get_notes db user)
      | POST_notes \<Rightarrow> auth (\<lambda>user. post_notes now db user b)
      | PUT_notes_id i \<Rightarrow> auth (\<lambda>user. put_note now db user (param_string i) b)
      | DELETE_notes_id i \<Rightarrow> auth (\<lambda>user. delete_note db user (param_string i))
      | PUT_user_password \<Rightarrow> auth (\<lambda>user. put_password L salt db user b)
      | DELETE_user_account \<Rightarrow> auth (\<lambda>user. delete_account L db user b))"

section \<open>Constraints of the schema and contracts of the libraries\<close>

text \<open>
  The schema declares \<open>id\<close> a primary key in both tables and \<open>username\<close> unique.
  A database that satisfies these constraints is well formed.
\<close>

definition wf_db :: "database \<Rightarrow> bool" where
  "wf_db db =
     (distinct (map n_id (notes_table db)) \<and> distinct (map u_id (users_table db)) \<and>
      distinct (map u_username (users_table db)))"

text \<open>
  What the server relies on from the libraries: a password compares equal to any hash
  made of it, and a token verifies under the secret it was signed with, to the claims it
  was signed over, for 24 hours (86400 seconds) from the second it was issued.
\<close>

definition bcrypt_sound :: "libs \<Rightarrow> bool" where
  "bcrypt_sound L = (\<forall>password salt. compareSync L password (hashSync L password salt))"

definition jwt_sound :: "libs \<Rightarrow> bool" where
  "jwt_sound L =
     (\<forall>c secret t t'. t' div 1000 < t div 1000 + 86400 \<longrightarrow>
        (\<exists>d. jwt_verify L (jwt_sign L c secret t) secret t' = Some d \<and>
             d_id d = c_id c \<and> d_username d = c_username c))"

section \<open>Sample data\<close>

text \<open>
  A small instance of the library interface, on which the model runs on concrete
  requests: the hash is the password followed by the salt, and a token spells the user
  id in unary, then a dot, then the user name.
\<close>

definition sample_libs :: libs where
  "sample_libs =
     \<lparr>hashSync = (\<lambda>password salt. password @ ''$'' @ salt),
      compareSync = (\<lambda>password h. take (Suc (length password)) h = password @ ''$''),
      jwt_sign = (\<lambda>c secret t. replicate (c_id c) CHR ''i'' @ ''.'' @ c_username c),
      jwt_verify = (\<lambda>token secret t.
         if CHR ''.'' \<in> set token
         then Some \<lparr>d_id = length (takeWhile (\<lambda>x. x \<noteq> CHR ''.'') token),
                    d_username = tl (dropWhile (\<lambda>x. x \<noteq> CHR ''.'') token),
                    d_iat = 0, d_exp = 86400\<rparr>
         else None)\<rparr>"

definition no_body :: req_body where
  "no_body = \<lparr>b_username = None, b_password = None, b_title = None, b_content = None,
              b_tags = None, b_oldPassword = None, b_newPassword = None\<rparr>"

definition alice :: jwt_decoded where
  "alice = \<lparr>d_id = 1, d_username = ''alice'', d_iat = 0, d_exp = 86400\<rparr>"

definition alice_note :: note_row where
  "alice_note = \<lparr>n_id = 1, n_user_id = 1, n_title = ''A'', n_content = ''B'', n_tags = [],
                 n_created_at = 5, n_updated_at = 5\<rparr>"

definition bob_note :: note_row where
  "bob_note = \<lparr>n_id = 2, n_user_id = 2, n_title = ''C'', n_content = ''D'', n_tags = ''x'',
               n_created_at = 7, n_updated_at = 9\<rparr>"

definition sample_db :: database where
  "sample_db = \<lparr>users_table = [], users_seq = 2, notes_table = [alice_note, bob_note],
                notes_seq = 2\<rparr>"

section \<open>The schema constraints are invariants\<close>

lemma fold_max_ge_start: "s \<le> fold max ids (s::nat)"
  by (induction ids arbitrary: s) (auto intro: order_trans [OF max.cobounded2])

lemma fold_max_ge_elem: "i \<in> set ids \<Longrightarrow> i \<le> fold max ids (s::nat)"
proof (induction ids arbitrary: s)
  case Nil
  then show ?case by simp
next
  case (Cons a ids)
  show ?case
  proof (cases "i = a")
    case True
    have "a \<le> max a s" by simp
    also have "\<dots> \<le> fold max ids (max a s)" by (rule fold_max_ge_start)
    finally show ?thesis using True by simp
  next
    case False
    with Cons show ?thesis by simp
  qed
qed

lemma next_rowid_fresh: "next_rowid ids seq \<notin> set ids"
  using fold_max_ge_elem [of "next_rowid ids seq" ids seq]
  by (auto simp: next_rowid_def)

lemma distinct_key_unique:
  "distinct (map f xs) \<Longrightarrow> x \<in> set xs \<Longrightarrow> y \<in> set xs \<Longrightarrow> f x = f y \<Longrightarrow> x = y"
  by (meson distinct_map inj_on_eq_iff)

lemma wf_initDatabase: "wf_db initDatabase"
  by (simp add: wf_db_def initDatabase_def)

lemma createNote_wf: "wf_db db \<Longrightarrow> wf_db (snd (createNote now db u t c g))"
  using next_rowid_fresh [of "map n_id (notes_table db)" "notes_seq db"]
  by (simp add: wf_db_def createNote_def Let_def)

lemma updateNote_wf: "wf_db db \<Longrightarrow> wf_db (snd (updateNote now db k u t c g))"
proof -
  have "n_id \<circ> (\<lambda>n. if note_matches k u n
           then n\<lparr>n_title := t, n_content := c, n_tags := g,
                  n_updated_at := CURRENT_TIMESTAMP now\<rparr> else n) = n_id"
    by (auto simp: fun_eq_iff)
  then show "wf_db db \<Longrightarrow> wf_db (snd (updateNote now db k u t c g))"
    by (simp add: wf_db_def updateNote_def Let_def split: option.splits)
qed

lemma deleteNote_wf: "wf_db db \<Longrightarrow> wf_db (snd (deleteNote db k u))"
  by (simp add: wf_db_def deleteNote_def Let_def distinct_map_filter split: option.splits)

lemma createUser_wf: "wf_db db \<Longrightarrow> wf_db (snd (createUser L salt now db username password))"
  using next_rowid_fresh [of "map u_id (users_table db)" "users_seq db"]
  by (auto simp: wf_db_def createUser_def Let_def list_ex_iff)

lemma changePassword_wf: "wf_db db \<Longrightarrow> wf_db (snd (changePassword L salt db u old new))"
proof -
  have eqs: "u_id \<circ> (\<lambda>r. if u_id r = u then r\<lparr>u_password_hash := h\<rparr> else r) = u_id"
       "u_username \<circ> (\<lambda>r. if u_id r = u then r\<lparr>u_password_hash := h\<rparr> else r) = u_username"
    for h
    by (auto simp: fun_eq_iff)
  show "wf_db db \<Longrightarrow> wf_db (snd (changePassword L salt db u old new))"
    by (simp add: eqs wf_db_def changePassword_def Let_def split: option.splits)
qed

lemma deleteUserAccount_wf: "wf_db db \<Longrightarrow> wf_db (snd (deleteUserAccount L db u password))"
  by (simp add: wf_db_def deleteUserAccount_def Let_def distinct_map_filter split: option.splits)

text \<open>Every request leaves a well-formed database well formed.\<close>

lemma post_register_wf:
  assumes "wf_db db"
  shows "wf_db (snd (post_register L now salt db b))"
proof -
  have "wf_db (snd (createUser L salt now db (the (b_username b)) (the (b_password b))))"
    using assms by (rule createUser_wf)
  with assms show ?thesis
    by (cases "createUser L salt now db (the (b_username b)) (the (b_password b))")
       (simp add: post_register_def Let_def split: option.splits sum.splits)
qed

lemma post_login_wf: "wf_db db \<Longrightarrow> wf_db (snd (post_login L now db b))"
  by (simp add: post_login_def Let_def split: option.splits)

lemma post_notes_wf:
  assumes "wf_db db"
  shows "wf_db (snd (post_notes now db user b))"
proof -
  have "wf_db (snd (createNote now db (d_id user) (the (b_title b)) (the (b_content b))
          (or_empty (b_tags b))))"
    using assms by (rule createNote_wf)
  with assms show ?thesis
    by (cases "createNote now db (d_id user) (the (b_title b)) (the (b_content b))
          (or_empty (b_tags b))")
       (simp add: post_notes_def Let_def)
qed

lemma put_note_wf:
  assumes "wf_db db"
  shows "wf_db (snd (put_note now db user i b))"
proof -
  have "wf_db (snd (updateNote now db (parseInt i) (d_id user) (the (b_title b))
          (the (b_content b)) (or_empty (b_tags b))))"
    using assms by (rule updateNote_wf)
  with assms show ?thesis
    by (cases "updateNote now db (parseInt i) (d_id user) (the (b_title b))
          (the (b_content b)) (or_empty (b_tags b))")
       (simp add: put_note_def Let_def split: option.splits)
qed

lemma delete_note_wf:
  assumes "wf_db db"
  shows "wf_db (snd (delete_note db user i))"
proof -
  have "wf_db (snd (deleteNote db (parseInt i) (d_id user)))"
    using assms by (rule deleteNote_wf)
  then show ?thesis
    by (cases "deleteNote db (parseInt i) (d_id user)") (simp add: delete_note_def Let_def)
qed

lemma put_password_wf:
  assumes "wf_db db"
  shows "wf_db (snd (put_password L salt db user b))"
proof -
  have "wf_db (snd (changePassword L salt db (d_id user) (the (b_oldPassword b))
          (the (b_newPassword b))))"
    using assms by (rule changePassword_wf)
  with assms show ?thesis
    by (cases "changePassword L salt db (d_id user) (the (b_oldPassword b))
          (the (b_newPassword b))")
       (simp add: put_password_def Let_def)
qed

lemma delete_account_wf:
  assumes "wf_db db"
  shows "wf_db (snd (delete_account L db user b))"
proof -
  have "wf_db (snd (deleteUserAccount L db (d_id user) (the (b_password b))))"
    using assms by (rule deleteUserAccount_wf)
  with assms show ?thesis
    by (cases "deleteUserAccount L db (d_id user) (the (b_password b))")
       (simp add: delete_account_def Let_def)
qed

lemma with_auth_wf:
  assumes "wf_db db" and "\<And>user. wf_db (snd (handler user))"
  shows "wf_db (snd (with_auth L now hdr db handler))"
  using assms by (simp add: with_auth_def split: gate.splits)

lemma handle_wf:
  assumes "wf_db db"
  shows "wf_db (snd (handle L now salt db req))"
  using assms
  by (cases "route req")
     (simp_all add: handle_def Let_def with_auth_wf post_register_wf post_login_wf get_notes_def
        post_notes_wf put_note_wf delete_note_wf put_password_wf delete_account_wf)

section \<open>What the note operations compute\<close>

lemma getNoteById_None_iff:
  "getNoteById db noteId userId = None \<longleftrightarrow>
     (\<forall>n \<in> set (notes_table db). \<not> note_matches noteId userId n)"
  by (auto simp: getNoteById_def find_None_iff)

lemma getNoteById_Some:
  "getNoteById db noteId userId = Some n \<Longrightarrow>
     n \<in> set (notes_table db) \<and> note_matches noteId userId n"
  by (auto simp: getNoteById_def find_Some_iff)

lemma getNoteById_owned:
  assumes "wf_db db" "n \<in> set (notes_table db)"
  shows "getNoteById db (Num (int (n_id n))) (n_user_id n) = Some n"
proof (cases "getNoteById db (Num (int (n_id n))) (n_user_id n)")
  case None
  with assms(2) show ?thesis
    by (auto simp: getNoteById_None_iff note_matches_def sql_eq_def)
next
  case (Some m)
  then have "m \<in> set (notes_table db)" "n_id m = n_id n"
    by (auto dest!: getNoteById_Some simp: note_matches_def sql_eq_def)
  with assms have "m = n"
    by (auto simp: wf_db_def intro: distinct_key_unique)
  with Some show ?thesis by simp
qed

lemma getNoteById_other_owner:
  assumes "wf_db db" "n \<in> set (notes_table db)" "n_user_id n \<noteq> B"
  shows "getNoteById db (Num (int (n_id n))) B = None"
proof -
  have "\<not> note_matches (Num (int (n_id n))) B m" if "m \<in> set (notes_table db)" for m
  proof
    assume "note_matches (Num (int (n_id n))) B m"
    then have "n_id m = n_id n" "n_user_id m = B"
      by (auto simp: note_matches_def sql_eq_def)
    moreover from this assms(1,2) that have "m = n"
      by (auto simp: wf_db_def intro: distinct_key_unique)
    ultimately show False using assms(3) by simp
  qed
  then show ?thesis by (simp add: getNoteById_None_iff)
qed

lemma getNoteById_missing:
  assumes "j \<notin> n_id ` set (notes_table db)"
  shows "getNoteById db (Num (int j)) B = None"
  using assms by (auto simp: getNoteById_None_iff note_matches_def sql_eq_def)

lemma updateNote_absent:
  "getNoteById db noteId userId = None \<Longrightarrow> updateNote now db noteId userId t c g = (None, db)"
  by (simp add: updateNote_def)

lemma deleteNote_absent:
  "getNoteById db noteId userId = None \<Longrightarrow> deleteNote db noteId userId = (False, db)"
  by (simp add: deleteNote_def)

lemma filter_shrinks_iff:
  "length (filter P xs) < length xs \<longleftrightarrow> (\<exists>x \<in> set xs. \<not> P x)"
proof
  assume "length (filter P xs) < length xs"
  then have "filter P xs \<noteq> xs" by auto
  then show "\<exists>x \<in> set xs. \<not> P x" by (auto simp: filter_id_conv)
next
  assume "\<exists>x \<in> set xs. \<not> P x"
  then show "length (filter P xs) < length xs" by (auto intro: length_filter_less)
qed

lemma deleteNote_result:
  "deleteNote db k u =
     ((\<exists>m \<in> set (notes_table db). note_matches k u m),
      db\<lparr>notes_table := filter (\<lambda>m. \<not> note_matches k u m) (notes_table db)\<rparr>)"
proof (cases "getNoteById db k u")
  case None
  then have "\<forall>m \<in> set (notes_table db). \<not> note_matches k u m"
    by (simp add: getNoteById_None_iff)
  then have "filter (\<lambda>m. \<not> note_matches k u m) (notes_table db) = notes_table db"
    by (simp add: filter_id_conv)
  moreover have "\<not> (\<exists>m \<in> set (notes_table db). note_matches k u m)"
    using None by (simp add: getNoteById_None_iff)
  ultimately show ?thesis
    using deleteNote_absent [OF None] by simp
next
  case (Some n)
  then have ex: "\<exists>m \<in> set (notes_table db). note_matches k u m"
    by (auto dest: getNoteById_Some)
  then have "length (filter (\<lambda>m. \<not> note_matches k u m) (notes_table db)) < length (notes_table db)"
    by (simp add: filter_shrinks_iff)
  with Some ex show ?thesis
    by (simp add: deleteNote_def Let_def)
qed

lemma find_snoc_fresh:
  "\<forall>x \<in> set xs. \<not> P x \<Longrightarrow> P y \<Longrightarrow> find P (xs @ [y]) = Some y"
  by (induction xs) auto

lemma createNote_result:
  "createNote now db u t c g =
     (Some \<lparr>n_id = next_rowid (map n_id (notes_table db)) (notes_seq db), n_user_id = u,
             n_title = t, n_content = c, n_tags = g, n_created_at = CURRENT_TIMESTAMP now,
             n_updated_at = CURRENT_TIMESTAMP now\<rparr>,
      db\<lparr>notes_table := notes_table db @
             [\<lparr>n_id = next_rowid (map n_id (notes_table db)) (notes_seq db), n_user_id = u,
               n_title = t, n_content = c, n_tags = g, n_created_at = CURRENT_TIMESTAMP now,
               n_updated_at = CURRENT_TIMESTAMP now\<rparr>],
          notes_seq := next_rowid (map n_id (notes_table db)) (notes_seq db)\<rparr>)"
proof -
  have "\<forall>m \<in> set (notes_table db).
          n_id m \<noteq> next_rowid (map n_id (notes_table db)) (notes_seq db)"
    using next_rowid_fresh [of "map n_id (notes_table db)" "notes_seq db"] by force
  then show ?thesis
    by (simp add: createNote_def Let_def getNoteById_def note_matches_def sql_eq_def
        find_snoc_fresh)
qed

lemma createNote_lookup:
  "createNote now db u t c g = (r, db1) \<Longrightarrow>
     r = getNoteById db1 (Num (int (next_rowid (map n_id (notes_table db)) (notes_seq db)))) u"
  by (auto simp: createNote_def Let_def)

lemma updateNote_owned:
  assumes "wf_db db" and "n \<in> set (notes_table db)"
  shows "updateNote now db (Num (int (n_id n))) (n_user_id n) t c g =
     (Some (n\<lparr>n_title := t, n_content := c, n_tags := g,
               n_updated_at := CURRENT_TIMESTAMP now\<rparr>),
      db\<lparr>notes_table :=
           map (\<lambda>m. if m = n
                     then n\<lparr>n_title := t, n_content := c, n_tags := g,
                            n_updated_at := CURRENT_TIMESTAMP now\<rparr>
                     else m) (notes_table db)\<rparr>)"
proof -
  let ?k = "Num (int (n_id n))" and ?u = "n_user_id n"
  let ?n' = "n\<lparr>n_title := t, n_content := c, n_tags := g, n_updated_at := CURRENT_TIMESTAMP now\<rparr>"
  let ?db' = "db\<lparr>notes_table := map (\<lambda>m. if m = n then ?n' else m) (notes_table db)\<rparr>"
  have only: "note_matches ?k ?u m \<longleftrightarrow> m = n" if "m \<in> set (notes_table db)" for m
    using that assms
    by (auto simp: note_matches_def sql_eq_def wf_db_def intro: distinct_key_unique)
  then have same: "map (\<lambda>m. if note_matches ?k ?u m
                     then m\<lparr>n_title := t, n_content := c, n_tags := g,
                            n_updated_at := CURRENT_TIMESTAMP now\<rparr>
                     else m) (notes_table db) = map (\<lambda>m. if m = n then ?n' else m) (notes_table db)"
    by (intro map_cong) auto
  have "wf_db ?db'"
    using updateNote_wf [OF assms(1), of now ?k ?u t c g] getNoteById_owned [OF assms]
    by (simp add: updateNote_def Let_def same)
  moreover have "?n' \<in> set (notes_table ?db')"
    using assms(2) by auto
  ultimately have "getNoteById ?db' (Num (int (n_id ?n'))) (n_user_id ?n') = Some ?n'"
    by (rule getNoteById_owned)
  then show ?thesis
    using getNoteById_owned [OF assms] by (simp add: updateNote_def Let_def same)
qed

section \<open>What the user operations and the public routes compute\<close>

lemma getUserByUsername_None_iff:
  "getUserByUsername db username = None \<longleftrightarrow>
     (\<forall>r \<in> set (users_table db). u_username r \<noteq> username)"
  by (auto simp: getUserByUsername_def find_None_iff)

lemma createUser_fresh:
  assumes "getUserByUsername db username = None"
  shows "createUser L salt now db username password =
     (Inr \<lparr>pub_id = next_rowid (map u_id (users_table db)) (users_seq db),
            pub_username = username, pub_created_at = IsoString now\<rparr>,
      db\<lparr>users_table := users_table db @
             [\<lparr>u_id = next_rowid (map u_id (users_table db)) (users_seq db),
               u_username = username, u_password_hash = hashSync L password salt,
               u_created_at = CURRENT_TIMESTAMP now\<rparr>],
          users_seq := next_rowid (map u_id (users_table db)) (users_seq db)\<rparr>)"
  using assms by (simp add: createUser_def Let_def list_ex_iff getUserByUsername_None_iff)

lemma post_register_fresh:
  assumes "b_username b = Some username" and "b_password b = Some password"
    and "3 \<le> length username" and "6 \<le> length password"
    and "getUserByUsername db username = None"
  shows "post_register L now salt db b =
     (\<lparr>status = 201,
       json = AuthBody ''User registered successfully''
         (jwt_sign L \<lparr>c_id = next_rowid (map u_id (users_table db)) (users_seq db),
                      c_username = username\<rparr> JWT_SECRET now)
         \<lparr>pub_id = next_rowid (map u_id (users_table db)) (users_seq db),
           pub_username = username, pub_created_at = IsoString now\<rparr>\<rparr>,
      db\<lparr>users_table := users_table db @
             [\<lparr>u_id = next_rowid (map u_id (users_table db)) (users_seq db),
               u_username = username, u_password_hash = hashSync L password salt,
               u_created_at = CURRENT_TIMESTAMP now\<rparr>],
          users_seq := next_rowid (map u_id (users_table db)) (users_seq db)\<rparr>)"
proof -
  have "\<not> falsy (Some username)" "\<not> falsy (Some password)"
    using assms(3,4) by (auto simp: falsy_def)
  then show ?thesis
    using assms by (simp add: post_register_def Let_def createUser_fresh)
qed

lemma post_register_taken:
  assumes "b_username b = Some username" and "b_password b = Some password"
    and "3 \<le> length username" and "6 \<le> length password"
    and "getUserByUsername db username \<noteq> None"
  shows "post_register L now salt db b =
     (\<lparr>status = 409, json = ErrorBody ''Username already exists''\<rparr>, db)"
proof -
  have "\<not> falsy (Some username)" "\<not> falsy (Some password)"
    using assms(3,4) by (auto simp: falsy_def)
  then show ?thesis
    using assms by (auto simp: post_register_def Let_def)
qed

lemma post_login_stored:
  assumes "b_username b = Some username" and "b_password b = Some password"
    and "username \<noteq> []" and "password \<noteq> []"
    and "getUserByUsername db username = Some row"
    and "compareSync L password (u_password_hash row)"
  shows "post_login L now db b =
     (\<lparr>status = 200,
       json = AuthBody ''Login successful''
         (jwt_sign L \<lparr>c_id = u_id row, c_username = u_username row\<rparr> JWT_SECRET now)
         \<lparr>pub_id = u_id row, pub_username = u_username row,
           pub_created_at = SqlDatetime (u_created_at row)\<rparr>\<rparr>, db)"
  using assms by (simp add: post_login_def verifyUser_def falsy_def Let_def)

lemma jwt_soundD:
  assumes "jwt_sound L" and "t' div 1000 < t div 1000 + 86400"
  shows "\<exists>d. jwt_verify L (jwt_sign L c secret t) secret t' = Some d \<and>
             d_id d = c_id c \<and> d_username d = c_username c"
  using assms unfolding jwt_sound_def by blast

text \<open>The sample libraries keep the contracts.\<close>

lemma sample_libs_bcrypt: "bcrypt_sound sample_libs"
  by (simp add: bcrypt_sound_def sample_libs_def)

lemma takeWhile_unary:
  "takeWhile (\<lambda>x. x \<noteq> CHR ''.'') (replicate n CHR ''i'' @ CHR ''.'' # u) = replicate n CHR ''i''"
  by (induction n) auto

lemma dropWhile_unary:
  "dropWhile (\<lambda>x. x \<noteq> CHR ''.'') (replicate n CHR ''i'' @ CHR ''.'' # u) = CHR ''.'' # u"
  by (induction n) auto

lemma sample_libs_jwt: "jwt_sound sample_libs"
  by (simp add: jwt_sound_def sample_libs_def takeWhile_unary dropWhile_unary)

section \<open>What the middleware and the note routes compute\<close>

lemma split_nonempty: "split s sep \<noteq> []"
  by (induction s) (auto split: list.splits)

lemma split_no_sep: "sep \<notin> set w \<Longrightarrow> split w sep = [w]"
  by (induction w) auto

lemma split_first_sep:
  "sep \<notin> set w \<Longrightarrow> split (w @ sep # rest) sep = w # split rest sep"
  by (induction w) auto

lemma header_token_absent: "header_token None = None"
  by (simp add: header_token_def falsy_def)

lemma header_token_one_segment:
  "CHR '' '' \<notin> set h \<Longrightarrow> falsy (header_token (Some h))"
  by (simp add: header_token_def falsy_def at_index_def split_no_sep)

lemma header_token_second_segment:
  "CHR '' '' \<notin> set w \<Longrightarrow>
     header_token (Some (w @ CHR '' '' # rest)) = Some (hd (split rest CHR '' ''))"
  using split_nonempty [of rest "CHR '' ''"]
  by (cases "split rest CHR '' ''")
     (auto simp: header_token_def falsy_def at_index_def split_first_sep)

lemma authenticateToken_missing:
  "falsy (header_token h) \<Longrightarrow>
     authenticateToken L now h = Rejected \<lparr>status = 401, json = ErrorBody ''Access token required''\<rparr>"
  by (simp add: authenticateToken_def)

lemma authenticateToken_invalid:
  "\<not> falsy (header_token h) \<Longrightarrow> jwt_verify L (the (header_token h)) JWT_SECRET now = None \<Longrightarrow>
     authenticateToken L now h = Rejected \<lparr>status = 403, json = ErrorBody ''Invalid or expired token''\<rparr>"
  by (simp add: authenticateToken_def)

lemma authenticateToken_valid:
  "\<not> falsy (header_token h) \<Longrightarrow> jwt_verify L (the (header_token h)) JWT_SECRET now = Some user \<Longrightarrow>
     authenticateToken L now h = Passed user"
  by (simp add: authenticateToken_def)

lemma handle_protected:
  "is_protected (route req) \<Longrightarrow> authenticateToken L now (authorization req) = Rejected res \<Longrightarrow>
     handle L now salt db req = (res, db)"
  by (cases "route req") (simp_all add: handle_def with_auth_def)

lemma handle_passed:
  assumes "authenticateToken L now hdr = Passed user"
  shows "handle L now salt db \<lparr>route = POST_notes, authorization = hdr, body = b\<rparr> =
           post_notes now db user b"
    and "handle L now salt db \<lparr>route = PUT_notes_id i, authorization = hdr, body = b\<rparr> =
           put_note now db user (param_string i) b"
    and "handle L now salt db \<lparr>route = DELETE_notes_id i, authorization = hdr, body = b\<rparr> =
           delete_note db user (param_string i)"
  using assms by (simp_all add: handle_def with_auth_def)

lemma post_notes_missing:
  "falsy (b_title b) \<or> falsy (b_content b) \<Longrightarrow>
     post_notes now db user b =
       (\<lparr>status = 400, json = ErrorBody ''Title and content are required''\<rparr>, db)"
  by (simp add: post_notes_def)

lemma put_note_missing:
  "falsy (b_title b) \<or> falsy (b_content b) \<Longrightarrow>
     put_note now db user i b =
       (\<lparr>status = 400, json = ErrorBody ''Title and content are required''\<rparr>, db)"
  by (simp add: put_note_def)

lemma shift_count_small: "m < 2 ^ 53 \<Longrightarrow> shift_count m = 0"
  by (subst shift_count.simps) simp

lemma round_to_double_small:
  assumes "m < 2 ^ 53"
  shows "round_to_double m = Some m"
proof -
  have "(2 :: int) ^ 53 < 2 ^ 1024"
    by (rule power_strict_increasing) simp_all
  with assms have "m < 2 ^ 1024"
    by (rule less_trans)
  then show ?thesis
    by (simp add: round_to_double_def shift_count_small [OF assms])
qed

lemma param_string_not_empty: "param_string i \<noteq> []"
  using param_string [of i] by simp

lemma parseInt_no_leading_digit:
  assumes "i = [] \<or> (\<not> is_white_space (hd i) \<and> hd i \<noteq> CHR ''+'' \<and> hd i \<noteq> CHR ''-'' \<and>
             \<not> is_radix_digit 10 (hd i))"
  shows "parseInt i = NaN"
proof (cases i)
  case Nil
  then show ?thesis by (simp add: parseInt_def)
next
  case (Cons c cs)
  with assms have c: "\<not> is_white_space c" "c \<noteq> CHR ''+''" "c \<noteq> CHR ''-''"
    "\<not> is_radix_digit 10 c"
    by auto
  have "is_radix_digit 10 CHR ''0''"
    by (simp add: is_radix_digit_def digit_value_def)
  with c(4) have "c \<noteq> CHR ''0''" by auto
  with c Cons show ?thesis
    by (simp add: parseInt_def)
qed

lemma put_note_NaN:
  assumes "parseInt i = NaN" and "\<not> falsy (b_title b)" and "\<not> falsy (b_content b)"
  shows "put_note now db user i b =
           (\<lparr>status = 404, json = ErrorBody ''Note not found or unauthorized''\<rparr>, db)"
proof -
  have "getNoteById db NaN (d_id user) = None"
    by (simp add: getNoteById_None_iff note_matches_def sql_eq_def)
  then have "updateNote now db NaN (d_id user) t c g = (None, db)" for t c g
    by (rule updateNote_absent)
  with assms show ?thesis
    by (simp add: put_note_def)
qed

lemma delete_note_NaN:
  assumes "parseInt i = NaN"
  shows "delete_note db user i =
           (\<lparr>status = 404, json = ErrorBody ''Note not found or unauthorized''\<rparr>, db)"
proof -
  have "getNoteById db NaN (d_id user) = None"
    by (simp add: getNoteById_None_iff note_matches_def sql_eq_def)
  then have "deleteNote db NaN (d_id user) = (False, db)"
    by (rule deleteNote_absent)
  with assms show ?thesis
    by (simp add: delete_note_def)
qed

section \<open>Ownership isolation\<close>

text \<open>
  Claim C1. In a well-formed database, for a note \<open>n\<close> and any user \<open>B\<close> who is not its
  owner, \<open>getNoteById\<close> with the note's id and \<open>B\<close> returns nothing, \<open>updateNote\<close> returns
  nothing and \<open>deleteNote\<close> returns false, both leaving the database as it was; these are
  exactly the outcomes for an id \<open>j\<close> that no note has.
\<close>

theorem ownership_isolation:
  assumes "wf_db db" and "n \<in> set (notes_table db)" and "n_user_id n \<noteq> B"
    and "j \<notin> n_id ` set (notes_table db)"
  shows "getNoteById db (Num (int (n_id n))) B = None \<and>
         getNoteById db (Num (int j)) B = None \<and>
         updateNote now db (Num (int (n_id n))) B t c g = (None, db) \<and>
         updateNote now db (Num (int j)) B t c g = (None, db) \<and>
         deleteNote db (Num (int (n_id n))) B = (False, db) \<and>
         deleteNote db (Num (int j)) B = (False, db)"
  using getNoteById_other_owner [OF assms(1-3)] getNoteById_missing [OF assms(4)]
  by (simp add: updateNote_absent deleteNote_absent)

theorem ownership_isolation_witness:
  "wf_db sample_db \<and> alice_note \<in> set (notes_table sample_db) \<and> n_user_id alice_note \<noteq> 2 \<and>
   99 \<notin> n_id ` set (notes_table sample_db) \<and>
   getNoteById sample_db (Num 1) 2 = None \<and> getNoteById sample_db (Num 99) 2 = None \<and>
   updateNote 0 sample_db (Num 1) 2 ''T'' ''C'' [] = (None, sample_db) \<and>
   updateNote 0 sample_db (Num 99) 2 ''T'' ''C'' [] = (None, sample_db) \<and>
   deleteNote sample_db (Num 1) 2 = (False, sample_db) \<and>
   deleteNote sample_db (Num 99) 2 = (False, sample_db)"
proof -
  have h: "wf_db sample_db" "alice_note \<in> set (notes_table sample_db)"
    "n_user_id alice_note \<noteq> 2" "99 \<notin> n_id ` set (notes_table sample_db)"
    by (simp_all add: wf_db_def sample_db_def alice_note_def bob_note_def)
  have "int (n_id alice_note) = 1"
    by (simp add: alice_note_def)
  with h ownership_isolation [OF h, of 0 "''T''" "''C''" "[]"] show ?thesis
    by simp
qed

section \<open>The two rejections of the middleware\<close>

text \<open>
  Claim C2. On every protected route, a request whose \<open>Authorization\<close> header yields no
  token (the header is absent or empty, or its second segment is absent or empty) is
  answered 401 and the database is untouched; a request whose token fails verification
  is answered 403 and the database is untouched. Neither class gets the other's status.
\<close>

theorem gate_status_asymmetry:
  assumes "is_protected (route req)"
  shows "(falsy (header_token (authorization req)) \<longrightarrow>
            handle L now salt db req =
              (\<lparr>status = 401, json = ErrorBody ''Access token required''\<rparr>, db)) \<and>
         (\<not> falsy (header_token (authorization req)) \<and>
          jwt_verify L (the (header_token (authorization req))) JWT_SECRET now = None \<longrightarrow>
            handle L now salt db req =
              (\<lparr>status = 403, json = ErrorBody ''Invalid or expired token''\<rparr>, db))"
  using assms
  by (auto intro!: handle_protected authenticateToken_missing authenticateToken_invalid)

theorem gate_status_asymmetry_witness:
  "is_protected (route \<lparr>route = GET_notes, authorization = None, body = no_body\<rparr>) \<and>
   falsy (header_token None) \<and>
   handle sample_libs 0 [] sample_db \<lparr>route = GET_notes, authorization = None, body = no_body\<rparr>
     = (\<lparr>status = 401, json = ErrorBody ''Access token required''\<rparr>, sample_db) \<and>
   is_protected (route \<lparr>route = DELETE_notes_id (path_param_of CHR ''1'' []),
                         authorization = Some ''Bearer abc'', body = no_body\<rparr>) \<and>
   header_token (Some ''Bearer abc'') = Some ''abc'' \<and>
   jwt_verify sample_libs ''abc'' JWT_SECRET 0 = None \<and>
   handle sample_libs 0 [] sample_db
       \<lparr>route = DELETE_notes_id (path_param_of CHR ''1'' []),
        authorization = Some ''Bearer abc'', body = no_body\<rparr>
     = (\<lparr>status = 403, json = ErrorBody ''Invalid or expired token''\<rparr>, sample_db)"
proof -
  have t: "header_token None = None" "header_token (Some ''Bearer abc'') = Some ''abc''"
    by (simp_all add: header_token_def falsy_def at_index_def)
  have v: "jwt_verify sample_libs ''abc'' JWT_SECRET 0 = None"
    by (simp add: sample_libs_def)
  show ?thesis
    using t v
      gate_status_asymmetry [of "\<lparr>route = GET_notes, authorization = None, body = no_body\<rparr>"
        sample_libs 0 "[]" sample_db]
      gate_status_asymmetry [of "\<lparr>route = DELETE_notes_id (path_param_of CHR ''1'' []),
        authorization = Some ''Bearer abc'', body = no_body\<rparr>" sample_libs 0 "[]" sample_db]
    by (simp add: falsy_def)
qed

section \<open>Registering, then logging in\<close>

text \<open>
  Claim C3. With libraries that keep their contracts, for a user name of at least 3
  characters that no stored user has and a password of at least 6 characters,
  registration answers 201 with a token and stores one user row; a login with the same
  credentials then answers 200 with a token; and each token, verified under the server
  secret within 24 hours of its issue, decodes to the id and the user name of that row.
\<close>

theorem register_login_roundtrip:
  assumes "bcrypt_sound L" and "jwt_sound L"
    and "b_username b = Some username" and "b_password b = Some password"
    and "3 \<le> length username" and "6 \<le> length password"
    and "getUserByUsername db username = None"
    and "tv1 div 1000 < t1 div 1000 + 86400" and "tv2 div 1000 < t2 div 1000 + 86400"
  shows "\<exists>token1 user1 db1 token2 user2 d1 d2 row.
      post_register L t1 salt db b =
        (\<lparr>status = 201, json = AuthBody ''User registered successfully'' token1 user1\<rparr>, db1) \<and>
      post_login L t2 db1 b =
        (\<lparr>status = 200, json = AuthBody ''Login successful'' token2 user2\<rparr>, db1) \<and>
      getUserByUsername db1 username = Some row \<and>
      pub_id user1 = u_id row \<and> pub_username user1 = username \<and>
      jwt_verify L token1 JWT_SECRET tv1 = Some d1 \<and> d_id d1 = u_id row \<and> d_username d1 = username \<and>
      jwt_verify L token2 JWT_SECRET tv2 = Some d2 \<and> d_id d2 = u_id row \<and> d_username d2 = username"
proof -
  let ?i = "next_rowid (map u_id (users_table db)) (users_seq db)"
  let ?row = "\<lparr>u_id = ?i, u_username = username, u_password_hash = hashSync L password salt,
               u_created_at = CURRENT_TIMESTAMP t1\<rparr>"
  let ?db1 = "db\<lparr>users_table := users_table db @ [?row], users_seq := ?i\<rparr>"
  let ?c = "\<lparr>c_id = ?i, c_username = username\<rparr>"
  have reg: "post_register L t1 salt db b =
     (\<lparr>status = 201, json = AuthBody ''User registered successfully'' (jwt_sign L ?c JWT_SECRET t1)
         \<lparr>pub_id = ?i, pub_username = username, pub_created_at = IsoString t1\<rparr>\<rparr>, ?db1)"
    using assms(3-7) by (rule post_register_fresh)
  have row: "getUserByUsername ?db1 username = Some ?row"
    using assms(7) by (simp add: getUserByUsername_def find_None_iff find_snoc_fresh)
  have cmp: "compareSync L password (u_password_hash ?row)"
    using assms(1) by (simp add: bcrypt_sound_def)
  have ne: "username \<noteq> []" "password \<noteq> []"
    using assms(5,6) by auto
  have log: "post_login L t2 ?db1 b =
     (\<lparr>status = 200, json = AuthBody ''Login successful'' (jwt_sign L ?c JWT_SECRET t2)
         \<lparr>pub_id = ?i, pub_username = username,
           pub_created_at = SqlDatetime (CURRENT_TIMESTAMP t1)\<rparr>\<rparr>, ?db1)"
    using post_login_stored [OF assms(3,4) ne row cmp, of t2] by simp
  obtain d1 where d1: "jwt_verify L (jwt_sign L ?c JWT_SECRET t1) JWT_SECRET tv1 = Some d1"
      "d_id d1 = ?i" "d_username d1 = username"
    using jwt_soundD [OF assms(2,8), of ?c JWT_SECRET] by auto
  obtain d2 where d2: "jwt_verify L (jwt_sign L ?c JWT_SECRET t2) JWT_SECRET tv2 = Some d2"
      "d_id d2 = ?i" "d_username d2 = username"
    using jwt_soundD [OF assms(2,9), of ?c JWT_SECRET] by auto
  from reg log row d1 d2 show ?thesis
    by (intro exI [of _ "jwt_sign L ?c JWT_SECRET t1"] exI [of _ "jwt_sign L ?c JWT_SECRET t2"]
        exI [of _ ?db1] exI [of _ d1] exI [of _ d2] exI [of _ ?row]
        exI [of _ "\<lparr>pub_id = ?i, pub_username = username, pub_created_at = IsoString t1\<rparr>"]
        exI [of _ "\<lparr>pub_id = ?i, pub_username = username,
                    pub_created_at = SqlDatetime (CURRENT_TIMESTAMP t1)\<rparr>"]) simp
qed

theorem register_login_roundtrip_witness:
  "b_username (no_body\<lparr>b_username := Some ''alice'', b_password := Some ''secret1''\<rparr>) = Some ''alice'' \<and>
   b_password (no_body\<lparr>b_username := Some ''alice'', b_password := Some ''secret1''\<rparr>) = Some ''secret1'' \<and>
   3 \<le> length ''alice'' \<and> 6 \<le> length ''secret1'' \<and>
   getUserByUsername initDatabase ''alice'' = None \<and>
   (1000 :: nat) div 1000 < 1000 div 1000 + 86400 \<and>
   status (fst (post_register sample_libs 1000 ''salt'' initDatabase
      (no_body\<lparr>b_username := Some ''alice'', b_password := Some ''secret1''\<rparr>))) = 201 \<and>
   status (fst (post_login sample_libs 2000
      (snd (post_register sample_libs 1000 ''salt'' initDatabase
         (no_body\<lparr>b_username := Some ''alice'', b_password := Some ''secret1''\<rparr>)))
      (no_body\<lparr>b_username := Some ''alice'', b_password := Some ''secret1''\<rparr>))) = 200"
proof -
  let ?b = "no_body\<lparr>b_username := Some ''alice'', b_password := Some ''secret1''\<rparr>"
  have h: "b_username ?b = Some ''alice''" "b_password ?b = Some ''secret1''"
    "3 \<le> length ''alice''" "6 \<le> length ''secret1''"
    "getUserByUsername initDatabase ''alice'' = None"
    by (simp_all add: no_body_def getUserByUsername_def initDatabase_def)
  have t: "(1000 :: nat) div 1000 < 1000 div 1000 + 86400" "(1000 :: nat) div 1000 < 2000 div 1000 + 86400"
    by simp_all
  from register_login_roundtrip [OF sample_libs_bcrypt sample_libs_jwt h t, of "''salt''"]
  obtain token1 user1 db1 token2 user2 where
    "post_register sample_libs 1000 ''salt'' initDatabase ?b =
        (\<lparr>status = 201, json = AuthBody ''User registered successfully'' token1 user1\<rparr>, db1)"
    "post_login sample_libs 2000 db1 ?b =
        (\<lparr>status = 200, json = AuthBody ''Login successful'' token2 user2\<rparr>, db1)"
    by blast
  then have "status (fst (post_register sample_libs 1000 ''salt'' initDatabase ?b)) = 201"
    "status (fst (post_login sample_libs 2000
        (snd (post_register sample_libs 1000 ''salt'' initDatabase ?b)) ?b)) = 200"
    by simp_all
  with h t show ?thesis by simp
qed

section \<open>Registering a name twice\<close>

text \<open>
  Claim C4. For a request that passes the length checks, registration answers 409
  exactly when a stored user has the very same user name (compared character by
  character), and then the database is unchanged. In particular a second registration
  of a name, after a first that answered 201, answers 409 and changes nothing.
\<close>

theorem duplicate_registration:
  assumes "b_username b = Some username" and "b_password b = Some password"
    and "3 \<le> length username" and "6 \<le> length password"
  shows "(status (fst (post_register L now salt db b)) = 409 \<longleftrightarrow>
            (\<exists>r \<in> set (users_table db). u_username r = username)) \<and>
         ((\<exists>r \<in> set (users_table db). u_username r = username) \<longrightarrow>
            post_register L now salt db b =
              (\<lparr>status = 409, json = ErrorBody ''Username already exists''\<rparr>, db)) \<and>
         (status (fst (post_register L now salt db b)) = 201 \<longrightarrow>
            post_register L now' salt' (snd (post_register L now salt db b)) b =
              (\<lparr>status = 409, json = ErrorBody ''Username already exists''\<rparr>,
               snd (post_register L now salt db b)))"
proof (cases "getUserByUsername db username")
  case None
  note fresh = post_register_fresh [OF assms None, of L now salt]
  have "getUserByUsername (snd (post_register L now salt db b)) username \<noteq> None"
    by (simp add: fresh getUserByUsername_None_iff)
  from post_register_taken [OF assms this] None show ?thesis
    by (simp add: fresh getUserByUsername_None_iff)
next
  case (Some row)
  then have taken: "getUserByUsername db username \<noteq> None" by simp
  then have "\<exists>r \<in> set (users_table db). u_username r = username"
    by (simp add: getUserByUsername_None_iff)
  then show ?thesis
    by (simp add: post_register_taken [OF assms taken])
qed

theorem duplicate_registration_witness:
  "b_username (no_body\<lparr>b_username := Some ''alice'', b_password := Some ''secret1''\<rparr>) = Some ''alice'' \<and>
   b_password (no_body\<lparr>b_username := Some ''alice'', b_password := Some ''secret1''\<rparr>) = Some ''secret1'' \<and>
   3 \<le> length ''alice'' \<and> 6 \<le> length ''secret1'' \<and>
   status (fst (post_register sample_libs 1000 ''salt'' initDatabase
      (no_body\<lparr>b_username := Some ''alice'', b_password := Some ''secret1''\<rparr>))) = 201 \<and>
   post_register sample_libs 2000 ''pepper''
      (snd (post_register sample_libs 1000 ''salt'' initDatabase
         (no_body\<lparr>b_username := Some ''alice'', b_password := Some ''secret1''\<rparr>)))
      (no_body\<lparr>b_username := Some ''alice'', b_password := Some ''secret1''\<rparr>) =
     (\<lparr>status = 409, json = ErrorBody ''Username already exists''\<rparr>,
      snd (post_register sample_libs 1000 ''salt'' initDatabase
         (no_body\<lparr>b_username := Some ''alice'', b_password := Some ''secret1''\<rparr>)))"
proof -
  let ?b = "no_body\<lparr>b_username := Some ''alice'', b_password := Some ''secret1''\<rparr>"
  have h: "b_username ?b = Some ''alice''" "b_password ?b = Some ''secret1''"
    "3 \<le> length ''alice''" "6 \<le> length ''secret1''"
    by (simp_all add: no_body_def)
  have s: "status (fst (post_register sample_libs 1000 ''salt'' initDatabase ?b)) = 201"
    by (simp add: post_register_def createUser_def getUserByUsername_def initDatabase_def
        no_body_def falsy_def Let_def)
  note r = duplicate_registration [OF h, of sample_libs 1000 "''salt''" initDatabase 2000 "''pepper''"]
  have "post_register sample_libs 2000 ''pepper''
      (snd (post_register sample_libs 1000 ''salt'' initDatabase ?b)) ?b =
     (\<lparr>status = 409, json = ErrorBody ''Username already exists''\<rparr>,
      snd (post_register sample_libs 1000 ''salt'' initDatabase ?b))"
    using r s by blast
  with h s show ?thesis by simp
qed

section \<open>Updating a note\<close>

text \<open>
  Claim C5, as amended. For a note owned by the caller in a well-formed database,
  \<open>updateNote\<close> returns the note with title, content and tags overwritten and
  \<open>updated_at\<close> set to \<open>CURRENT_TIMESTAMP\<close>, the clock in whole seconds, while
  \<open>created_at\<close>, id and owner, every other note and the users stay as they were. If the
  ownership lookup finds nothing, \<open>updateNote\<close> returns nothing and the database is
  unchanged. \<open>createNote\<close> stores and returns a note whose \<open>created_at\<close> and \<open>updated_at\<close>
  are both the clock second of the creation, and an update of that note keeps
  \<open>created_at\<close> and sets \<open>updated_at\<close> to the clock second of the update: it is later
  than \<open>created_at\<close> exactly when the update falls in a later second.
\<close>

theorem update_frame:
  "(wf_db db \<and> n \<in> set (notes_table db) \<and> n_user_id n = u \<longrightarrow>
      (\<exists>n'. updateNote now db (Num (int (n_id n))) u t c g =
               (Some n', db\<lparr>notes_table := map (\<lambda>m. if m = n then n' else m) (notes_table db)\<rparr>) \<and>
            n_title n' = t \<and> n_content n' = c \<and> n_tags n' = g \<and>
            n_updated_at n' = CURRENT_TIMESTAMP now \<and>
            n_created_at n' = n_created_at n \<and> n_id n' = n_id n \<and> n_user_id n' = n_user_id n)) \<and>
   (getNoteById db k u = None \<longrightarrow> updateNote now db k u t c g = (None, db)) \<and>
   (\<exists>m db1. createNote now0 db u t0 c0 g0 = (Some m, db1) \<and>
        n_created_at m = CURRENT_TIMESTAMP now0 \<and> n_updated_at m = CURRENT_TIMESTAMP now0 \<and>
        getNoteById db1 (Num (int (n_id m))) u = Some m \<and>
        (wf_db db \<longrightarrow>
           (\<exists>n'. fst (updateNote now db1 (Num (int (n_id m))) u t c g) = Some n' \<and>
                 n_created_at n' = CURRENT_TIMESTAMP now0 \<and>
                 n_updated_at n' = CURRENT_TIMESTAMP now)))"
proof (intro conjI impI)
  assume h: "wf_db db \<and> n \<in> set (notes_table db) \<and> n_user_id n = u"
  then show "\<exists>n'. updateNote now db (Num (int (n_id n))) u t c g =
               (Some n', db\<lparr>notes_table := map (\<lambda>m. if m = n then n' else m) (notes_table db)\<rparr>) \<and>
            n_title n' = t \<and> n_content n' = c \<and> n_tags n' = g \<and>
            n_updated_at n' = CURRENT_TIMESTAMP now \<and>
            n_created_at n' = n_created_at n \<and> n_id n' = n_id n \<and> n_user_id n' = n_user_id n"
    using updateNote_owned [of db n now t c g] by auto
next
  assume "getNoteById db k u = None"
  then show "updateNote now db k u t c g = (None, db)" by (rule updateNote_absent)
next
  obtain m db1 where cr: "createNote now0 db u t0 c0 g0 = (Some m, db1)"
    and m: "n_created_at m = CURRENT_TIMESTAMP now0" "n_updated_at m = CURRENT_TIMESTAMP now0"
      "n_user_id m = u" "m \<in> set (notes_table db1)"
    by (simp add: createNote_result)
  have db1: "db1 = snd (createNote now0 db u t0 c0 g0)" using cr by simp
  have "n_id m = next_rowid (map n_id (notes_table db)) (notes_seq db)"
    using cr by (auto simp: createNote_result)
  then have look: "getNoteById db1 (Num (int (n_id m))) u = Some m"
    using createNote_lookup [OF cr] by simp
  have "\<exists>n'. fst (updateNote now db1 (Num (int (n_id m))) u t c g) = Some n' \<and>
                 n_created_at n' = CURRENT_TIMESTAMP now0 \<and>
                 n_updated_at n' = CURRENT_TIMESTAMP now" if "wf_db db"
  proof -
    have "wf_db db1" using that db1 by (simp add: createNote_wf)
    from updateNote_owned [OF this m(4), of now t c g] m show ?thesis by simp
  qed
  with cr m look show "\<exists>m db1. createNote now0 db u t0 c0 g0 = (Some m, db1) \<and>
        n_created_at m = CURRENT_TIMESTAMP now0 \<and> n_updated_at m = CURRENT_TIMESTAMP now0 \<and>
        getNoteById db1 (Num (int (n_id m))) u = Some m \<and>
        (wf_db db \<longrightarrow>
           (\<exists>n'. fst (updateNote now db1 (Num (int (n_id m))) u t c g) = Some n' \<and>
                 n_created_at n' = CURRENT_TIMESTAMP now0 \<and>
                 n_updated_at n' = CURRENT_TIMESTAMP now))"
    by blast
qed

theorem update_frame_witness:
  "wf_db sample_db \<and> alice_note \<in> set (notes_table sample_db) \<and> n_user_id alice_note = 1 \<and>
   updateNote 9400 sample_db (Num 1) 1 ''T'' ''C'' ''g'' =
     (Some \<lparr>n_id = 1, n_user_id = 1, n_title = ''T'', n_content = ''C'', n_tags = ''g'',
             n_created_at = 5, n_updated_at = 9\<rparr>,
      sample_db\<lparr>notes_table :=
        [\<lparr>n_id = 1, n_user_id = 1, n_title = ''T'', n_content = ''C'', n_tags = ''g'',
          n_created_at = 5, n_updated_at = 9\<rparr>, bob_note]\<rparr>) \<and>
   getNoteById sample_db (Num 2) 1 = None \<and>
   updateNote 9400 sample_db (Num 2) 1 ''T'' ''C'' ''g'' = (None, sample_db)"
proof -
  have h: "wf_db sample_db \<and> alice_note \<in> set (notes_table sample_db) \<and> n_user_id alice_note = 1"
    by (simp add: wf_db_def sample_db_def alice_note_def bob_note_def)
  have g: "getNoteById sample_db (Num 2) 1 = None"
    by (simp add: getNoteById_def note_matches_def sql_eq_def sample_db_def
        alice_note_def bob_note_def)
  from update_frame [of sample_db alice_note 1 9400 "''T''" "''C''" "''g''" "Num 2"] h g
  have "(\<exists>n'. updateNote 9400 sample_db (Num (int (n_id alice_note))) 1 ''T'' ''C'' ''g'' =
               (Some n', sample_db\<lparr>notes_table :=
                  map (\<lambda>m. if m = alice_note then n' else m) (notes_table sample_db)\<rparr>) \<and>
            n_title n' = ''T'' \<and> n_content n' = ''C'' \<and> n_tags n' = ''g'' \<and>
            n_updated_at n' = CURRENT_TIMESTAMP 9400 \<and>
            n_created_at n' = n_created_at alice_note \<and> n_id n' = n_id alice_note \<and>
            n_user_id n' = n_user_id alice_note)"
    and u2: "updateNote 9400 sample_db (Num 2) 1 ''T'' ''C'' ''g'' = (None, sample_db)"
    by blast+
  then obtain n' where
    n': "updateNote 9400 sample_db (Num (int (n_id alice_note))) 1 ''T'' ''C'' ''g'' =
               (Some n', sample_db\<lparr>notes_table :=
                  map (\<lambda>m. if m = alice_note then n' else m) (notes_table sample_db)\<rparr>)"
    "n_title n' = ''T''" "n_content n' = ''C''" "n_tags n' = ''g''"
    "n_updated_at n' = CURRENT_TIMESTAMP 9400" "n_created_at n' = n_created_at alice_note"
    "n_id n' = n_id alice_note" "n_user_id n' = n_user_id alice_note"
    by blast
  have "n' = \<lparr>n_id = 1, n_user_id = 1, n_title = ''T'', n_content = ''C'', n_tags = ''g'',
             n_created_at = 5, n_updated_at = 9\<rparr>"
    using n'(2-) by (cases n') (simp add: alice_note_def CURRENT_TIMESTAMP_def)
  with n'(1) have "updateNote 9400 sample_db (Num 1) 1 ''T'' ''C'' ''g'' =
     (Some \<lparr>n_id = 1, n_user_id = 1, n_title = ''T'', n_content = ''C'', n_tags = ''g'',
             n_created_at = 5, n_updated_at = 9\<rparr>,
      sample_db\<lparr>notes_table :=
        [\<lparr>n_id = 1, n_user_id = 1, n_title = ''T'', n_content = ''C'', n_tags = ''g'',
          n_created_at = 5, n_updated_at = 9\<rparr>, bob_note]\<rparr>)"
    by (simp add: sample_db_def alice_note_def bob_note_def)
  with h g u2 show ?thesis by simp
qed

text \<open>
  As stated, with \<open>updated_at\<close> strictly greater than \<open>created_at\<close> after any later
  update, the claim fails: a note created at 5000 ms and updated at 5400 ms has both
  timestamps equal to second 5.
\<close>

theorem update_same_second_counterexample:
  "(5000 :: nat) < 5400 \<and>
   fst (updateNote 5400 (snd (createNote 5000 initDatabase 1 ''A'' ''B'' [])) (Num 1) 1
          ''A2'' ''B2'' []) =
     Some \<lparr>n_id = 1, n_user_id = 1, n_title = ''A2'', n_content = ''B2'', n_tags = [],
            n_created_at = 5, n_updated_at = 5\<rparr> \<and>
   \<not> n_created_at (the (fst (updateNote 5400 (snd (createNote 5000 initDatabase 1 ''A'' ''B'' []))
          (Num 1) 1 ''A2'' ''B2'' [])))
     < n_updated_at (the (fst (updateNote 5400 (snd (createNote 5000 initDatabase 1 ''A'' ''B'' []))
          (Num 1) 1 ''A2'' ''B2'' [])))"
  by (simp add: updateNote_def createNote_def getNoteById_def note_matches_def sql_eq_def
      initDatabase_def next_rowid_def CURRENT_TIMESTAMP_def Let_def)

section \<open>Validation of the note body\<close>

text \<open>
  Claim C6, as amended. A create-note or update-note request that has passed the
  middleware and whose title or content is absent or empty is answered 400 with the one
  message \<open>Title and content are required\<close>, whichever field is missing, and the
  database is unchanged.
\<close>

theorem missing_field_message:
  assumes "authenticateToken L now hdr = Passed user"
    and "falsy (b_title b) \<or> falsy (b_content b)"
  shows "handle L now salt db \<lparr>route = POST_notes, authorization = hdr, body = b\<rparr> =
           (\<lparr>status = 400, json = ErrorBody ''Title and content are required''\<rparr>, db) \<and>
         handle L now salt db \<lparr>route = PUT_notes_id i, authorization = hdr, body = b\<rparr> =
           (\<lparr>status = 400, json = ErrorBody ''Title and content are required''\<rparr>, db)"
  using assms(2) by (simp add: handle_passed [OF assms(1)] post_notes_missing put_note_missing)

theorem missing_field_message_witness:
  "authenticateToken sample_libs 0 (Some ''Bearer i.alice'') = Passed alice \<and>
   falsy (b_title (no_body\<lparr>b_content := Some ''B''\<rparr>)) \<and>
   handle sample_libs 0 [] sample_db
       \<lparr>route = POST_notes, authorization = Some ''Bearer i.alice'',
        body = no_body\<lparr>b_content := Some ''B''\<rparr>\<rparr> =
     (\<lparr>status = 400, json = ErrorBody ''Title and content are required''\<rparr>, sample_db) \<and>
   handle sample_libs 0 [] sample_db
       \<lparr>route = PUT_notes_id (path_param_of CHR ''1'' []),
        authorization = Some ''Bearer i.alice'',
        body = no_body\<lparr>b_content := Some ''B''\<rparr>\<rparr> =
     (\<lparr>status = 400, json = ErrorBody ''Title and content are required''\<rparr>, sample_db)"
proof -
  have a: "authenticateToken sample_libs 0 (Some ''Bearer i.alice'') = Passed alice"
    by (simp add: authenticateToken_def header_token_def falsy_def at_index_def
        sample_libs_def alice_def)
  have f: "falsy (b_title (no_body\<lparr>b_content := Some ''B''\<rparr>)) \<or>
           falsy (b_content (no_body\<lparr>b_content := Some ''B''\<rparr>))"
    by (simp add: no_body_def falsy_def)
  have "falsy (b_title (no_body\<lparr>b_content := Some ''B''\<rparr>))"
    by (simp add: no_body_def falsy_def)
  with a missing_field_message [OF a f, of "[]" sample_db "path_param_of CHR ''1'' []"]
  show ?thesis
    by simp
qed

text \<open>
  As stated, with a message that tells which field is missing, the claim fails: a
  request missing only the title and a request missing only the content get the same
  answer, on both routes.
\<close>

theorem missing_field_same_message_counterexample:
  "post_notes 0 sample_db alice (no_body\<lparr>b_content := Some ''B''\<rparr>) =
     (\<lparr>status = 400, json = ErrorBody ''Title and content are required''\<rparr>, sample_db) \<and>
   post_notes 0 sample_db alice (no_body\<lparr>b_title := Some ''A''\<rparr>) =
     (\<lparr>status = 400, json = ErrorBody ''Title and content are required''\<rparr>, sample_db) \<and>
   put_note 0 sample_db alice ''1'' (no_body\<lparr>b_content := Some ''B''\<rparr>) =
     (\<lparr>status = 400, json = ErrorBody ''Title and content are required''\<rparr>, sample_db) \<and>
   put_note 0 sample_db alice ''1'' (no_body\<lparr>b_title := Some ''A''\<rparr>) =
     (\<lparr>status = 400, json = ErrorBody ''Title and content are required''\<rparr>, sample_db)"
  by (simp add: post_notes_def put_note_def no_body_def falsy_def)

section \<open>Listing notes\<close>

text \<open>
  Claim C7. \<open>getNotesByUserId\<close> returns exactly the notes of the given owner, each as
  often as the table holds it, as a list in descending order of \<open>updated_at\<close>.
\<close>

theorem listing_order:
  "mset (getNotesByUserId db u) = filter_mset (\<lambda>n. n_user_id n = u) (mset (notes_table db)) \<and>
   sorted_wrt (\<lambda>a b. n_updated_at b \<le> n_updated_at a) (getNotesByUserId db u)"
proof
  show "mset (getNotesByUserId db u) = filter_mset (\<lambda>n. n_user_id n = u) (mset (notes_table db))"
    by (simp add: getNotesByUserId_def order_by_updated_at_desc_def)
  have "sorted (map (\<lambda>n. - int (n_updated_at n)) (getNotesByUserId db u))"
    unfolding getNotesByUserId_def order_by_updated_at_desc_def by (rule sorted_sort_key)
  then show "sorted_wrt (\<lambda>a b. n_updated_at b \<le> n_updated_at a) (getNotesByUserId db u)"
    by (simp add: sorted_map)
qed

theorem listing_order_witness:
  "getNotesByUserId (sample_db\<lparr>notes_table := [alice_note, bob_note, bob_note\<lparr>n_id := 3, n_user_id := 1\<rparr>]\<rparr>) 1
     = [bob_note\<lparr>n_id := 3, n_user_id := 1\<rparr>, alice_note] \<and>
   sorted_wrt (\<lambda>a b. n_updated_at b \<le> n_updated_at a)
     (getNotesByUserId (sample_db\<lparr>notes_table := [alice_note, bob_note, bob_note\<lparr>n_id := 3, n_user_id := 1\<rparr>]\<rparr>) 1)"
proof -
  have "getNotesByUserId (sample_db\<lparr>notes_table := [alice_note, bob_note, bob_note\<lparr>n_id := 3, n_user_id := 1\<rparr>]\<rparr>) 1
     = [bob_note\<lparr>n_id := 3, n_user_id := 1\<rparr>, alice_note]"
    by (simp add: getNotesByUserId_def order_by_updated_at_desc_def sample_db_def
        alice_note_def bob_note_def)
  with listing_order [of "sample_db\<lparr>notes_table := [alice_note, bob_note, bob_note\<lparr>n_id := 3, n_user_id := 1\<rparr>]\<rparr>" 1]
  show ?thesis by simp
qed

section \<open>Deleting a note\<close>

text \<open>
  Claim C8. For a note owned by the caller, the first \<open>deleteNote\<close> returns true and a
  second \<open>deleteNote\<close> of the same id by the same caller returns false and leaves the
  database as the first left it. For any id and caller, \<open>deleteNote\<close> returns true
  exactly when a row matching both the id and the owner was in the table and is no
  longer there.
\<close>

theorem delete_idempotent:
  assumes "n \<in> set (notes_table db)" and "n_user_id n = u" and "k = Num (int (n_id n))"
  shows "fst (deleteNote db k u) = True \<and>
         deleteNote (snd (deleteNote db k u)) k u = (False, snd (deleteNote db k u)) \<and>
         (\<forall>k' u'. fst (deleteNote db k' u') =
            (\<exists>m \<in> set (notes_table db). sql_eq (n_id m) k' \<and> n_user_id m = u' \<and>
               m \<notin> set (notes_table (snd (deleteNote db k' u')))))"
proof -
  have "note_matches k u n"
    using assms by (simp add: note_matches_def sql_eq_def)
  with assms(1) have first: "fst (deleteNote db k u) = True"
    by (auto simp: deleteNote_result)
  have "getNoteById (snd (deleteNote db k u)) k u = None"
    by (simp add: deleteNote_result getNoteById_None_iff)
  then have second: "deleteNote (snd (deleteNote db k u)) k u = (False, snd (deleteNote db k u))"
    by (rule deleteNote_absent)
  have third: "fst (deleteNote db k' u') =
      (\<exists>m \<in> set (notes_table db). sql_eq (n_id m) k' \<and> n_user_id m = u' \<and>
         m \<notin> set (notes_table (snd (deleteNote db k' u'))))" for k' u'
    by (auto simp: deleteNote_result note_matches_def)
  from first second third show ?thesis by blast
qed

theorem delete_idempotent_witness:
  "alice_note \<in> set (notes_table sample_db) \<and> n_user_id alice_note = 1 \<and>
   Num 1 = Num (int (n_id alice_note)) \<and>
   fst (deleteNote sample_db (Num 1) 1) = True \<and>
   deleteNote (snd (deleteNote sample_db (Num 1) 1)) (Num 1) 1 =
     (False, snd (deleteNote sample_db (Num 1) 1)) \<and>
   notes_table (snd (deleteNote sample_db (Num 1) 1)) = [bob_note]"
proof -
  have h: "alice_note \<in> set (notes_table sample_db)" "n_user_id alice_note = 1"
    "Num 1 = Num (int (n_id alice_note))"
    by (simp_all add: sample_db_def alice_note_def)
  have "notes_table (snd (deleteNote sample_db (Num 1) 1)) = [bob_note]"
    by (simp add: deleteNote_def getNoteById_def note_matches_def sql_eq_def sample_db_def
        alice_note_def bob_note_def)
  moreover note r = delete_idempotent [OF h]
  moreover have "fst (deleteNote sample_db (Num 1) 1) = True"
    using r by (rule conjunct1)
  moreover have "deleteNote (snd (deleteNote sample_db (Num 1) 1)) (Num 1) 1 =
     (False, snd (deleteNote sample_db (Num 1) 1))"
    using r by (elim conjE)
  ultimately show ?thesis
    using h by simp
qed

section \<open>The scheme word of the header\<close>

text \<open>
  Claim C9. The middleware reads the second space-separated segment of the header and
  nothing of the first. A header value with no space, such as a bare token, is answered
  401. A header whose first segment is any word without a space is treated exactly as
  the header with \<open>Bearer\<close> in its place; with a valid token after it, the request
  passes with the decoded identity.
\<close>

theorem gate_ignores_scheme:
  "(CHR '' '' \<notin> set h \<longrightarrow>
      authenticateToken L now (Some h) =
        Rejected \<lparr>status = 401, json = ErrorBody ''Access token required''\<rparr>) \<and>
   (CHR '' '' \<notin> set scheme \<longrightarrow>
      authenticateToken L now (Some (scheme @ '' '' @ rest)) =
        authenticateToken L now (Some (''Bearer '' @ rest))) \<and>
   (CHR '' '' \<notin> set scheme \<and> CHR '' '' \<notin> set token \<and> token \<noteq> [] \<and>
    jwt_verify L token JWT_SECRET now = Some user \<longrightarrow>
      authenticateToken L now (Some (scheme @ '' '' @ token)) = Passed user)"
proof (intro conjI impI)
  assume "CHR '' '' \<notin> set h"
  then show "authenticateToken L now (Some h) =
        Rejected \<lparr>status = 401, json = ErrorBody ''Access token required''\<rparr>"
    by (intro authenticateToken_missing header_token_one_segment)
next
  assume s: "CHR '' '' \<notin> set scheme"
  have "header_token (Some (scheme @ '' '' @ rest)) = Some (hd (split rest CHR '' ''))"
    using header_token_second_segment [OF s] by simp
  moreover have "header_token (Some (''Bearer '' @ rest)) = Some (hd (split rest CHR '' ''))"
    using header_token_second_segment [of "''Bearer''" rest] by simp
  ultimately show "authenticateToken L now (Some (scheme @ '' '' @ rest)) =
        authenticateToken L now (Some (''Bearer '' @ rest))"
    by (simp add: authenticateToken_def)
next
  assume a: "CHR '' '' \<notin> set scheme \<and> CHR '' '' \<notin> set token \<and> token \<noteq> [] \<and>
    jwt_verify L token JWT_SECRET now = Some user"
  then have "header_token (Some (scheme @ '' '' @ token)) = Some token"
    using header_token_second_segment [of scheme token] by (simp add: split_no_sep)
  with a show "authenticateToken L now (Some (scheme @ '' '' @ token)) = Passed user"
    by (simp add: authenticateToken_def falsy_def)
qed

theorem gate_ignores_scheme_witness:
  "CHR '' '' \<notin> set ''i.alice'' \<and>
   authenticateToken sample_libs 0 (Some ''i.alice'') =
     Rejected \<lparr>status = 401, json = ErrorBody ''Access token required''\<rparr> \<and>
   CHR '' '' \<notin> set ''Basic'' \<and> ''i.alice'' \<noteq> [] \<and>
   jwt_verify sample_libs ''i.alice'' JWT_SECRET 0 = Some alice \<and>
   authenticateToken sample_libs 0 (Some ''Basic i.alice'') = Passed alice \<and>
   authenticateToken sample_libs 0 (Some ''Bearer i.alice'') = Passed alice"
proof -
  have h: "CHR '' '' \<notin> set ''i.alice''" "CHR '' '' \<notin> set ''Basic''" "''i.alice'' \<noteq> []"
    "CHR '' '' \<notin> set ''Bearer''"
    by simp_all
  have v: "jwt_verify sample_libs ''i.alice'' JWT_SECRET 0 = Some alice"
    by (simp add: sample_libs_def alice_def)
  show ?thesis
    using h v
      gate_ignores_scheme [of "''i.alice''" sample_libs 0 "''Basic''" "''i.alice''" "''i.alice''" alice]
      gate_ignores_scheme [of "''i.alice''" sample_libs 0 "''Bearer''" "''i.alice''" "''i.alice''" alice]
    by simp
qed

section \<open>Path parameters that are not numbers\<close>

text \<open>
  Claim C10, as amended. For a request with a valid token and, on PUT, a title and a
  content, whose \<open>:id\<close> is one on which \<open>parseInt\<close> yields \<open>NaN\<close> (by
  \<open>parseInt_no_leading_digit\<close> these include every \<open>:id\<close> whose first character is
  not white space, a sign or a decimal digit), PUT and DELETE answer 404
  \<open>Note not found or unauthorized\<close> and the database is unchanged. The lookup matches
  no row because the driver binds \<open>NaN\<close> as \<open>NULL\<close> (\<open>sql_eq\<close>); an \<open>:id\<close> is never
  empty (\<open>param_string_not_empty\<close>).
\<close>

theorem nan_id_not_found:
  assumes "authenticateToken L now hdr = Passed user"
    and "\<not> falsy (b_title b)" and "\<not> falsy (b_content b)"
    and "parseInt (param_string i) = NaN"
  shows "handle L now salt db \<lparr>route = PUT_notes_id i, authorization = hdr, body = b\<rparr> =
           (\<lparr>status = 404, json = ErrorBody ''Note not found or unauthorized''\<rparr>, db) \<and>
         handle L now salt db \<lparr>route = DELETE_notes_id i, authorization = hdr, body = b'\<rparr> =
           (\<lparr>status = 404, json = ErrorBody ''Note not found or unauthorized''\<rparr>, db)"
  using assms(2-4)
  by (simp add: handle_passed [OF assms(1)] put_note_NaN delete_note_NaN)

theorem nan_id_not_found_witness:
  "authenticateToken sample_libs 0 (Some ''Bearer i.alice'') = Passed alice \<and>
   \<not> falsy (b_title (no_body\<lparr>b_title := Some ''T'', b_content := Some ''C''\<rparr>)) \<and>
   \<not> falsy (b_content (no_body\<lparr>b_title := Some ''T'', b_content := Some ''C''\<rparr>)) \<and>
   parseInt (param_string (path_param_of CHR ''a'' ''bc'')) = NaN \<and>
   handle sample_libs 0 [] sample_db
       \<lparr>route = PUT_notes_id (path_param_of CHR ''a'' ''bc''), authorization = Some ''Bearer i.alice'',
        body = no_body\<lparr>b_title := Some ''T'', b_content := Some ''C''\<rparr>\<rparr> =
     (\<lparr>status = 404, json = ErrorBody ''Note not found or unauthorized''\<rparr>, sample_db) \<and>
   handle sample_libs 0 [] sample_db
       \<lparr>route = DELETE_notes_id (path_param_of CHR ''a'' ''bc''), authorization = Some ''Bearer i.alice'',
        body = no_body\<rparr> =
     (\<lparr>status = 404, json = ErrorBody ''Note not found or unauthorized''\<rparr>, sample_db)"
proof -
  let ?b = "no_body\<lparr>b_title := Some ''T'', b_content := Some ''C''\<rparr>"
  have a: "authenticateToken sample_libs 0 (Some ''Bearer i.alice'') = Passed alice"
    by (simp add: authenticateToken_def header_token_def falsy_def at_index_def
        sample_libs_def alice_def)
  have b: "\<not> falsy (b_title ?b)" "\<not> falsy (b_content ?b)"
    by (simp_all add: no_body_def falsy_def)
  have i: "parseInt (param_string (path_param_of CHR ''a'' ''bc'')) = NaN"
    by (simp add: path_param_of.rep_eq parseInt_def is_white_space_def is_radix_digit_def
        digit_value_def)
  from nan_id_not_found [OF a b i, of "[]" sample_db no_body] a b i show ?thesis
    by simp
qed

text \<open>
  As stated, for every \<open>:id\<close> that is not a number, the claim fails: \<open>parseInt\<close> reads
  the digits a string starts with, so \<open>1abc\<close> is note 1, which its owner updates and
  deletes with answer 200.
\<close>

theorem numeric_prefix_id_counterexample:
  "\<not> list_all (is_radix_digit 10) ''1abc'' \<and> parseInt ''1abc'' = Num 1 \<and>
   put_note 9400 sample_db alice ''1abc'' (no_body\<lparr>b_title := Some ''T'', b_content := Some ''C''\<rparr>) =
     (\<lparr>status = 200, json = NoteBody ''Note updated successfully''
         (Some \<lparr>n_id = 1, n_user_id = 1, n_title = ''T'', n_content = ''C'', n_tags = [],
                 n_created_at = 5, n_updated_at = 9\<rparr>)\<rparr>,
      sample_db\<lparr>notes_table :=
        [\<lparr>n_id = 1, n_user_id = 1, n_title = ''T'', n_content = ''C'', n_tags = [],
          n_created_at = 5, n_updated_at = 9\<rparr>, bob_note]\<rparr>) \<and>
   delete_note sample_db alice ''1abc'' =
     (\<lparr>status = 200, json = MessageBody ''Note deleted successfully''\<rparr>,
      sample_db\<lparr>notes_table := [bob_note]\<rparr>)"
proof -
  have p: "parseInt ''1abc'' = Num 1"
    by (simp add: parseInt_def is_white_space_def is_radix_digit_def digit_value_def
        digits_to_int_def round_to_double_small)
  have d: "\<not> list_all (is_radix_digit 10) ''1abc''"
    by (simp add: is_radix_digit_def digit_value_def)
  have u: "put_note 9400 sample_db alice ''1abc'' (no_body\<lparr>b_title := Some ''T'', b_content := Some ''C''\<rparr>) =
     (\<lparr>status = 200, json = NoteBody ''Note updated successfully''
         (Some \<lparr>n_id = 1, n_user_id = 1, n_title = ''T'', n_content = ''C'', n_tags = [],
                 n_created_at = 5, n_updated_at = 9\<rparr>)\<rparr>,
      sample_db\<lparr>notes_table :=
        [\<lparr>n_id = 1, n_user_id = 1, n_title = ''T'', n_content = ''C'', n_tags = [],
          n_created_at = 5, n_updated_at = 9\<rparr>, bob_note]\<rparr>)"
    by (simp add: put_note_def p updateNote_def getNoteById_def note_matches_def sql_eq_def
        sample_db_def alice_note_def bob_note_def alice_def no_body_def falsy_def or_empty_def
        CURRENT_TIMESTAMP_def Let_def)
  have r: "delete_note sample_db alice ''1abc'' =
     (\<lparr>status = 200, json = MessageBody ''Note deleted successfully''\<rparr>,
      sample_db\<lparr>notes_table := [bob_note]\<rparr>)"
    by (simp add: delete_note_def p deleteNote_def getNoteById_def note_matches_def sql_eq_def
        sample_db_def alice_note_def bob_note_def alice_def Let_def)
  from p d u r show ?thesis by blast
qed

end
